theory Spec2Isabelle
  imports
    Complex_Main
    "HOL-Library.AList"
    "HOL-Library.Char_ord"
    "HOL-Library.List_Lexorder"
begin

section \<open>Strings, identifiers and exceptions\<close>

text \<open>
  Strings are lists of characters, each read as the code point of its number, 0 to 255.
  \<open>isspace\<close>, \<open>lower\<close> and \<open>strip\<close> are Python's \<open>str.isspace\<close>, \<open>str.lower\<close> and
  \<open>str.strip\<close> on these code points: the white space is U+0009 to U+000D, U+001C to
  U+0020, U+0085 and U+00A0; the capital letters are A to Z and U+00C0 to U+00DE without
  the multiplication sign U+00D7, each 32 below its small letter.
\<close>

definition isspace :: "char \<Rightarrow> bool" where
  "isspace c = (of_char c \<in> {9, 10, 11, 12, 13, 28, 29, 30, 31, 32, 133, 160 :: nat})"

definition isupper :: "char \<Rightarrow> bool" where
  "isupper c =
     (let n = (of_char c :: nat)
      in (65 \<le> n \<and> n \<le> 90) \<or> (192 \<le> n \<and> n \<le> 222 \<and> n \<noteq> 215))"

definition lower_char :: "char \<Rightarrow> char" where
  "lower_char c = (if isupper c then char_of (of_char c + (32 :: nat)) else c)"

definition lower :: "string \<Rightarrow> string" where
  "lower s = map lower_char s"

definition strip :: "string \<Rightarrow> string" where
  "strip s = rev (dropWhile isspace (rev (dropWhile isspace s)))"

text \<open>
  A BSON ObjectId is represented by the text that \<open>str\<close> prints: its bytes as lower-case
  hexadecimal digits. The constructor \<open>ObjectId\<close> takes a string of 24 characters that
  \<open>bytes.fromhex\<close> can read, and raises \<open>InvalidId\<close> on any other string; \<open>fromhex\<close>
  reads pairs of hexadecimal digits and skips ASCII white space before a pair and at the
  end. \<open>is_valid\<close> is \<open>ObjectId.is_valid\<close> on a string: whether the constructor accepts
  it. The driver generates ids of 12 bytes; on their texts the lexicographic order of
  strings is the byte order of the ids.
\<close>

type_synonym object_id = string

type_synonym time = nat

datatype exn =
    InvalidId string
  | DuplicateKeyError
  | StorageError string
  | TypeError string
  | ValueError string
  | FileNotFoundError string

definition is_hex :: "char \<Rightarrow> bool" where
  "is_hex c =
     (let n = (of_char c :: nat)
      in (48 \<le> n \<and> n \<le> 57) \<or> (65 \<le> n \<and> n \<le> 70) \<or> (97 \<le> n \<and> n \<le> 102))"

definition is_ascii_space :: "char \<Rightarrow> bool" where
  "is_ascii_space c = (of_char c \<in> {9, 10, 11, 12, 13, 32 :: nat})"

fun fromhex :: "string \<Rightarrow> string option" where
  "fromhex [] = Some []"
| "fromhex [c] = (if is_ascii_space c then Some [] else None)"
| "fromhex (c # d # cs) =
     (if is_ascii_space c then fromhex (d # cs)
      else if is_hex c \<and> is_hex d
           then map_option (\<lambda>h. lower_char c # lower_char d # h) (fromhex cs)
           else None)"

definition ObjectId :: "string \<Rightarrow> exn + object_id" where
  "ObjectId s =
     (if length s = 24
      then (case fromhex s of Some h \<Rightarrow> Inr h | None \<Rightarrow> Inl (InvalidId s))
      else Inl (InvalidId s))"

definition is_valid :: "string \<Rightarrow> bool" where
  "is_valid s = (case ObjectId s of Inr _ \<Rightarrow> True | Inl _ \<Rightarrow> False)"

section \<open>Schemas\<close>

text \<open>
  \<open>product_in\<close> is the body of \<open>POST /products\<close> and, once validated, the \<open>ProductIn\<close>
  model; the stored document adds the two timestamps and \<open>ProductOut\<close> the id as text.
  The price is a float of which the code only tests the sign, so it is kept as the
  number it denotes.
\<close>

record product_in =
  name :: string
  price :: real
  size' :: "string list"
  available_quantity :: int

record product_doc = product_in +
  created_at :: time
  updated_at :: time

record product_out = product_in +
  product_out_id :: string

record order_in =
  user_id :: string
  product_id :: string
  quantity :: int

record order_doc = order_in +
  order_created_at :: time

record order_out = order_doc +
  order_out_id :: string

text \<open>
  \<open>PaginationParams\<close>: the route declares \<open>limit\<close> with \<open>ge=1, le=100\<close> and \<open>offset\<close> with
  \<open>ge=0\<close>, so neither is ever negative.
\<close>

record PaginationParams =
  limit :: nat
  offset :: nat

type_synonym validation_error = "string \<times> string"

fun validate_sizes_loop :: "string list \<Rightarrow> string list \<Rightarrow> string + string list" where
  "validate_sizes_loop [] valid_sizes = Inr valid_sizes"
| "validate_sizes_loop (sz # v) valid_sizes =
     (let sz' = strip sz
      in if sz' = [] then Inl ''Size cannot be empty''
         else validate_sizes_loop v (valid_sizes @ [lower sz']))"

definition validate_sizes :: "string list \<Rightarrow> string + string list" where
  "validate_sizes v =
     (if v = [] then Inl ''At least one size must be provided''
      else validate_sizes_loop v [])"

definition validate_name :: "string \<Rightarrow> string + string" where
  "validate_name v =
     (let v' = strip v
      in if v' = [] then Inl ''Product name cannot be empty'' else Inr v')"

text \<open>
  The field constraints (\<open>min_length\<close>, \<open>max_length\<close>, \<open>gt\<close>, \<open>min_items\<close>, \<open>ge\<close>) are
  checked on the value as received, then the field's validator runs; the errors of all
  fields are collected.
\<close>

definition name_field :: "string \<Rightarrow> string + string" where
  "name_field v =
     (if length v < 1 then Inl ''ensure this value has at least 1 characters''
      else if 200 < length v then Inl ''ensure this value has at most 200 characters''
      else validate_name v)"

definition price_field :: "real \<Rightarrow> string + real" where
  "price_field v = (if 0 < v then Inr v else Inl ''ensure this value is greater than 0'')"

definition size_field :: "string list \<Rightarrow> string + string list" where
  "size_field v =
     (if length v < 1 then Inl ''ensure this value has at least 1 items''
      else validate_sizes v)"

definition available_quantity_field :: "int \<Rightarrow> string + int" where
  "available_quantity_field v =
     (if 0 \<le> v then Inr v else Inl ''ensure this value is greater than or equal to 0'')"

definition field_errors :: "string \<Rightarrow> string + 'a \<Rightarrow> validation_error list" where
  "field_errors f r = (case r of Inl m \<Rightarrow> [(f, m)] | Inr _ \<Rightarrow> [])"

definition ProductIn :: "product_in \<Rightarrow> validation_error list + product_in" where
  "ProductIn raw =
     (case (name_field (name raw), price_field (price raw), size_field (size' raw),
            available_quantity_field (available_quantity raw)) of
        (Inr n, Inr p, Inr z, Inr q) \<Rightarrow>
          Inr \<lparr>name = n, price = p, size' = z, available_quantity = q\<rparr>
      | (n, p, z, q) \<Rightarrow>
          Inl (field_errors ''name'' n @ field_errors ''price'' p @ field_errors ''size'' z
               @ field_errors ''available_quantity'' q))"

definition validate_ids :: "string \<Rightarrow> string + string" where
  "validate_ids v =
     (let v' = strip v in if v' = [] then Inl ''ID cannot be empty'' else Inr v')"

definition validate_object_id :: "string \<Rightarrow> string + string" where
  "validate_object_id v =
     (if \<not> is_valid v then Inl ''Invalid product ID format'' else Inr v)"

definition user_id_field :: "string \<Rightarrow> string + string" where
  "user_id_field v =
     (if length v < 1 then Inl ''ensure this value has at least 1 characters''
      else validate_ids v)"

definition product_id_field :: "string \<Rightarrow> string + string" where
  "product_id_field v =
     (if length v < 1 then Inl ''ensure this value has at least 1 characters''
      else case validate_ids v of Inl m \<Rightarrow> Inl m | Inr v' \<Rightarrow> validate_object_id v')"

definition quantity_field :: "int \<Rightarrow> string + int" where
  "quantity_field v = (if 0 < v then Inr v else Inl ''ensure this value is greater than 0'')"

definition OrderIn :: "order_in \<Rightarrow> validation_error list + order_in" where
  "OrderIn raw =
     (case (user_id_field (user_id raw), product_id_field (product_id raw),
            quantity_field (quantity raw)) of
        (Inr u, Inr p, Inr q) \<Rightarrow> Inr \<lparr>user_id = u, product_id = p, quantity = q\<rparr>
      | (u, p, q) \<Rightarrow>
          Inl (field_errors ''user_id'' u @ field_errors ''product_id'' p
               @ field_errors ''quantity'' q))"

section \<open>Collections\<close>

text \<open>
  A collection is the list of its documents in insertion order, each paired with its
  \<open>_id\<close>. The \<open>_id\<close> index is unique: \<open>insert_one\<close> refuses an id that is present, and
  \<open>delete_one\<close> on an \<open>_id\<close> leaves no document with it.
\<close>

type_synonym 'd collection = "(object_id \<times> 'd) list"

record db =
  products :: "product_doc collection"
  orders :: "order_doc collection"

definition empty_db :: db where
  "empty_db = \<lparr>products = [], orders = []\<rparr>"

definition unique_ids :: "'d collection \<Rightarrow> bool" where
  "unique_ids c = distinct (map fst c)"

definition find_one :: "'d collection \<Rightarrow> object_id \<Rightarrow> 'd option" where
  "find_one c oid = map_of c oid"

definition insert_one :: "'d collection \<Rightarrow> object_id \<Rightarrow> 'd \<Rightarrow> exn + 'd collection" where
  "insert_one c oid d =
     (if oid \<in> fst ` set c then Inl DuplicateKeyError else Inr (c @ [(oid, d)]))"

definition delete_one :: "'d collection \<Rightarrow> object_id \<Rightarrow> 'd collection" where
  "delete_one c oid = AList.delete oid c"

record update_result =
  matched_count :: nat
  modified_count :: nat

text \<open>
  \<open>update_one\<close> with the filter \<open>{_id: oid, available_quantity: {$gte: g}}\<close> and the update
  \<open>{$inc: {available_quantity: n}, $set: {updated_at: t}}\<close>: the first document that
  satisfies the whole filter is updated; \<open>modified_count\<close> counts it only when the
  update changed it.
\<close>

fun update_one :: "product_doc collection \<Rightarrow> object_id \<Rightarrow> int \<Rightarrow> int \<Rightarrow> time
    \<Rightarrow> update_result \<times> product_doc collection" where
  "update_one [] oid g n t = (\<lparr>matched_count = 0, modified_count = 0\<rparr>, [])"
| "update_one ((i, d) # c) oid g n t =
     (if i = oid \<and> g \<le> available_quantity d
      then let d' = d\<lparr>available_quantity := available_quantity d + n, updated_at := t\<rparr>
           in (\<lparr>matched_count = 1, modified_count = (if d' = d then 0 else 1)\<rparr>, (i, d') # c)
      else let (r, c') = update_one c oid g n t in (r, (i, d) # c'))"

text \<open>
  A cursor records the query and the options set on it; nothing is read until
  \<open>to_list\<close>, where the server filters, then sorts, then skips, then limits, whatever the
  order in which \<open>skip\<close>, \<open>limit\<close> and \<open>sort\<close> were called. A limit of 0 is no limit;
  without a sort the documents come in insertion order. A sort of direction 1 is
  ascending; any other direction is descending, documents of equal key in the reverse of
  their insertion order.
\<close>

record 'd cursor =
  source :: "'d collection"
  selector :: "object_id \<times> 'd \<Rightarrow> bool"
  ordering :: "'d collection \<Rightarrow> 'd collection"
  skip_n :: nat
  limit_n :: nat

definition coll_find :: "'d collection \<Rightarrow> (object_id \<times> 'd \<Rightarrow> bool) \<Rightarrow> 'd cursor" where
  "coll_find c query =
     \<lparr>source = c, selector = query, ordering = (\<lambda>xs. xs), skip_n = 0, limit_n = 0\<rparr>"

definition cursor_skip :: "nat \<Rightarrow> 'd cursor \<Rightarrow> 'd cursor" where
  "cursor_skip n cur = cur\<lparr>skip_n := n\<rparr>"

definition cursor_limit :: "nat \<Rightarrow> 'd cursor \<Rightarrow> 'd cursor" where
  "cursor_limit n cur = cur\<lparr>limit_n := n\<rparr>"

definition cursor_sort :: "(object_id \<times> 'd \<Rightarrow> 'k::linorder) \<Rightarrow> int \<Rightarrow> 'd cursor \<Rightarrow> 'd cursor" where
  "cursor_sort key direction cur =
     cur\<lparr>ordering := (if direction = 1 then sort_key key else rev \<circ> sort_key key)\<rparr>"

definition to_list :: "'d cursor \<Rightarrow> 'd collection" where
  "to_list cur =
     (let sorted_docs = ordering cur (filter (selector cur) (source cur));
          skipped = drop (skip_n cur) sorted_docs
      in if limit_n cur = 0 then skipped else take (limit_n cur) skipped)"

section \<open>Product service\<close>

text \<open>
  Every storage call takes the exception the storage raises at that call, if any
  (\<open>None\<close>: the call goes through), and the clock reading where the code reads the clock.
  An exception is logged and raised again. The \<open>inserted_id\<close> of an insert that went
  through is the ObjectId generated for it, which is never falsy, so the test
  \<open>if not result.inserted_id\<close> never raises.
\<close>

definition storage :: "string option \<Rightarrow> 'a \<Rightarrow> exn + 'a" where
  "storage flt r = (case flt of Some m \<Rightarrow> Inl (StorageError m) | None \<Rightarrow> Inr r)"

definition ProductOut :: "object_id \<Rightarrow> product_doc \<Rightarrow> product_out" where
  "ProductOut oid d =
     \<lparr>name = name d, price = price d, size' = size' d,
      available_quantity = available_quantity d, product_out_id = oid\<rparr>"

definition create_product ::
    "string option \<Rightarrow> string option \<Rightarrow> object_id \<Rightarrow> time \<Rightarrow> time \<Rightarrow> db \<Rightarrow> product_in
     \<Rightarrow> (exn + product_out) \<times> db" where
  "create_product flt1 flt2 oid t1 t2 s product =
     (let product_doc =
            \<lparr>name = name product, price = price product, size' = size' product,
             available_quantity = available_quantity product,
             created_at = t1, updated_at = t2\<rparr>
      in case storage flt1 () of
           Inl e \<Rightarrow> (Inl e, s)
         | Inr _ \<Rightarrow>
             (case insert_one (products s) oid product_doc of
                Inl e \<Rightarrow> (Inl e, s)
              | Inr c \<Rightarrow>
                  (case storage flt2 (find_one c oid) of
                     Inl e \<Rightarrow> (Inl e, s\<lparr>products := c\<rparr>)
                   | Inr None \<Rightarrow>
                       (Inl (TypeError ''NoneType object is not subscriptable''),
                        s\<lparr>products := c\<rparr>)
                   | Inr (Some created_product) \<Rightarrow>
                       (Inr (ProductOut oid created_product), s\<lparr>products := c\<rparr>))))"



definition get_product_by_id :: "string option \<Rightarrow> db \<Rightarrow> string \<Rightarrow> exn + product_doc option" where
  "get_product_by_id flt s pid =
     (if \<not> is_valid pid then Inr None
      else case ObjectId pid of
             Inl e \<Rightarrow> Inl e
           | Inr oid \<Rightarrow> storage flt (find_one (products s) oid))"

definition update_product_quantity ::
    "string option \<Rightarrow> time \<Rightarrow> db \<Rightarrow> string \<Rightarrow> int \<Rightarrow> (exn + bool) \<times> db" where
  "update_product_quantity flt t s pid quantity_change =
     (case ObjectId pid of
        Inl e \<Rightarrow> (Inl e, s)
      | Inr oid \<Rightarrow>
          (case flt of
             Some m \<Rightarrow> (Inl (StorageError m), s)
           | None \<Rightarrow>
               let (result, c) =
                     update_one (products s) oid
                       (if quantity_change < 0 then abs quantity_change else 0)
                       quantity_change t
               in (Inr (modified_count result > 0), s\<lparr>products := c\<rparr>)))"

section \<open>Order service\<close>

text \<open>
  Python's \<open>str\<close> of an integer, for the messages built with f-strings.
\<close>

fun str_nat :: "nat \<Rightarrow> string" where
  "str_nat n =
     (if n < 10 then [char_of (48 + n)]
      else str_nat (n div 10) @ [char_of (48 + n mod 10)])"

definition str_int :: "int \<Rightarrow> string" where
  "str_int i = (if i < 0 then CHR ''-'' # str_nat (nat (- i)) else str_nat (nat i))"

text \<open>
  Requests are served concurrently: while one request waits for a storage call, others
  run theirs. What the others do to the store is a list of writes, each one a storage
  call this code issues: the insert of a validated product, the guarded quantity update,
  the insert of an order and the delete of an order.
\<close>

datatype store_write =
    ProductInsert product_in object_id time time
  | QuantityUpdate string int time
  | OrderInsert object_id order_doc
  | OrderDelete object_id

fun apply_write :: "store_write \<Rightarrow> db \<Rightarrow> db" where
  "apply_write (ProductInsert raw oid t1 t2) s =
     (case ProductIn raw of
        Inl _ \<Rightarrow> s
      | Inr product \<Rightarrow> snd (create_product None None oid t1 t2 s product))"
| "apply_write (QuantityUpdate pid quantity_change t) s =
     snd (update_product_quantity None t s pid quantity_change)"
| "apply_write (OrderInsert oid d) s =
     (case insert_one (orders s) oid d of
        Inl _ \<Rightarrow> s
      | Inr c \<Rightarrow> s\<lparr>orders := c\<rparr>)"
| "apply_write (OrderDelete oid) s = s\<lparr>orders := delete_one (orders s) oid\<rparr>"

definition interleave :: "store_write list \<Rightarrow> db \<Rightarrow> db" where
  "interleave ws s = fold apply_write ws s"

text \<open>
  The environment of one \<open>create_order\<close> call: the ObjectId the driver generates for the
  insert, the clock readings, the exception (if any) of its k-th storage call, and the
  writes of other requests after its k-th storage call. The storage calls are numbered
  1 (find the product), 2 (insert the order), 3 (update the quantity) and 4 (delete the
  order, or read it back).
\<close>

record env =
  gen_oid :: object_id
  utcnow :: "nat \<Rightarrow> time"
  fault :: "nat \<Rightarrow> string option"
  others :: "nat \<Rightarrow> store_write list"

definition quiet :: "object_id \<Rightarrow> time \<Rightarrow> env" where
  "quiet oid t =
     \<lparr>gen_oid = oid, utcnow = (\<lambda>k. t), fault = (\<lambda>k. None), others = (\<lambda>k. [])\<rparr>"

definition OrderOut :: "object_id \<Rightarrow> order_doc \<Rightarrow> order_out" where
  "OrderOut oid d =
     \<lparr>user_id = user_id d, product_id = product_id d, quantity = quantity d,
      order_created_at = order_created_at d, order_out_id = oid\<rparr>"

definition create_order_try :: "env \<Rightarrow> db \<Rightarrow> order_in \<Rightarrow> (exn + order_out) \<times> db" where
  "create_order_try e s order =
     (case get_product_by_id (fault e 1) s (product_id order) of
        Inl x \<Rightarrow> (Inl x, s)
      | Inr None \<Rightarrow>
          (Inl (FileNotFoundError
                  (''Product with ID '' @ product_id order @ '' not found'')), s)
      | Inr (Some product) \<Rightarrow>
          if available_quantity product < quantity order
          then (Inl (ValueError
                       (''Insufficient quantity. Available: ''
                        @ str_int (available_quantity product)
                        @ '', Requested: '' @ str_int (quantity order))), s)
          else
            (let order_doc =
                   \<lparr>user_id = user_id order, product_id = product_id order,
                    quantity = quantity order, order_created_at = utcnow e 1\<rparr>;
                 s1 = interleave (others e 1) s
             in case storage (fault e 2) () of
                  Inl x \<Rightarrow> (Inl x, s1)
                | Inr _ \<Rightarrow>
                    (case insert_one (orders s1) (gen_oid e) order_doc of
                       Inl x \<Rightarrow> (Inl x, s1)
                     | Inr c \<Rightarrow>
                         (let s2 = interleave (others e 2) (s1\<lparr>orders := c\<rparr>)
                          in case update_product_quantity (fault e 3) (utcnow e 2) s2
                                    (product_id order) (- quantity order) of
                               (Inl x, s3) \<Rightarrow> (Inl x, s3)
                             | (Inr quantity_updated, s3) \<Rightarrow>
                                 (let s4 = interleave (others e 3) s3
                                  in if \<not> quantity_updated
                                     then (case storage (fault e 4) () of
                                             Inl x \<Rightarrow> (Inl x, s4)
                                           | Inr _ \<Rightarrow>
                                               (Inl (ValueError
                                                       ''Failed to update product quantity''),
                                                s4\<lparr>orders :=
                                                     delete_one (orders s4) (gen_oid e)\<rparr>))
                                     else (case storage (fault e 4)
                                                  (find_one (orders s4) (gen_oid e)) of
                                             Inl x \<Rightarrow> (Inl x, s4)
                                           | Inr None \<Rightarrow>
                                               (Inl (TypeError
                                                       ''NoneType object is not subscriptable''),
                                                s4)
                                           | Inr (Some created_order) \<Rightarrow>
                                               (Inr (OrderOut (gen_oid e) created_order),
                                                s4)))))))"

text \<open>
  The handlers of \<open>create_order\<close>: \<open>ValueError\<close> and \<open>FileNotFoundError\<close> pass, every other
  exception is logged and replaced.
\<close>

definition create_order :: "env \<Rightarrow> db \<Rightarrow> order_in \<Rightarrow> (exn + order_out) \<times> db" where
  "create_order e s order =
     (case create_order_try e s order of
        (Inl (ValueError m), s') \<Rightarrow> (Inl (ValueError m), s')
      | (Inl (FileNotFoundError m), s') \<Rightarrow> (Inl (FileNotFoundError m), s')
      | (Inl _, s') \<Rightarrow>
          (Inl (ValueError ''Failed to create order due to system error''), s')
      | (Inr out, s') \<Rightarrow> (Inr out, s'))"

definition list_user_orders ::
    "string option \<Rightarrow> db \<Rightarrow> string \<Rightarrow> PaginationParams option \<Rightarrow> exn + order_out list" where
  "list_user_orders flt s uid pagination =
     (let cur = cursor_sort (\<lambda>(oid, d). order_created_at d) (- 1)
                  (coll_find (orders s) (\<lambda>(oid, d). user_id d = uid));
          cur = (case pagination of
                   None \<Rightarrow> cur
                 | Some p \<Rightarrow> cursor_limit (limit p) (cursor_skip (offset p) cur))
      in case storage flt (to_list cur) of
           Inl x \<Rightarrow> Inl x
         | Inr docs \<Rightarrow> Inr (map (\<lambda>(oid, d). OrderOut oid d) docs))"

section \<open>Routes\<close>

text \<open>
  A route builds its service on the connected database (requests are served only once
  \<open>connect_to_mongo\<close> has succeeded), calls it, and turns what the service raises into
  an \<open>HTTPException\<close>: the handlers are tried in the order written.
\<close>

datatype 'a response = Response nat 'a | HTTPException nat string

definition status_code :: "'a response \<Rightarrow> nat" where
  "status_code r = (case r of Response c _ \<Rightarrow> c | HTTPException c _ \<Rightarrow> c)"

definition create_order_route :: "env \<Rightarrow> db \<Rightarrow> order_in \<Rightarrow> order_out response \<times> db" where
  "create_order_route e s order =
     (case create_order e s order of
        (Inr created_order, s') \<Rightarrow> (Response 201 created_order, s')
      | (Inl (ValueError m), s') \<Rightarrow> (HTTPException 400 m, s')
      | (Inl (FileNotFoundError m), s') \<Rightarrow> (HTTPException 404 m, s')
      | (Inl _, s') \<Rightarrow> (HTTPException 500 ''Failed to create order'', s'))"

definition create_product_route ::
    "string option \<Rightarrow> string option \<Rightarrow> object_id \<Rightarrow> time \<Rightarrow> time \<Rightarrow> db \<Rightarrow> product_in
     \<Rightarrow> product_out response \<times> db" where
  "create_product_route flt1 flt2 oid t1 t2 s product =
     (case create_product flt1 flt2 oid t1 t2 s product of
        (Inr created_product, s') \<Rightarrow> (Response 201 created_product, s')
      | (Inl (ValueError m), s') \<Rightarrow> (HTTPException 400 m, s')
      | (Inl _, s') \<Rightarrow> (HTTPException 500 ''Failed to create product'', s'))"

section \<open>The system as a sequence of operations\<close>

text \<open>
  An operation is a product creation or an order creation as received (the body is
  validated into the model before the route runs; a rejected body reaches no code of the
  service), or a quantity update.
\<close>

datatype operation =
    CreateProduct "string option" "string option" object_id time time product_in
  | UpdateQuantity "string option" time string int
  | CreateOrder env order_in

fun perform :: "operation \<Rightarrow> db \<Rightarrow> db" where
  "perform (CreateProduct flt1 flt2 oid t1 t2 raw) s =
     (case ProductIn raw of
        Inl _ \<Rightarrow> s
      | Inr product \<Rightarrow> snd (create_product_route flt1 flt2 oid t1 t2 s product))"
| "perform (UpdateQuantity flt t pid quantity_change) s =
     snd (update_product_quantity flt t s pid quantity_change)"
| "perform (CreateOrder e raw) s =
     (case OrderIn raw of
        Inl _ \<Rightarrow> s
      | Inr order \<Rightarrow> snd (create_order_route e s order))"

definition run :: "operation list \<Rightarrow> db \<Rightarrow> db" where
  "run ops s = fold perform ops s"

definition stock_nonneg :: "db \<Rightarrow> bool" where
  "stock_nonneg s = list_all (\<lambda>(oid, d). 0 \<le> available_quantity d) (products s)"

section \<open>Name filters\<close>


datatype rexp = NoMatch | EmptyStr | Chr char | Dot | Alt rexp rexp | Seq rexp rexp | Star rexp












datatype verdict = Valid rexp | Invalid | Unmodelled









section \<open>A sample store\<close>

text \<open>
  The scenario of the specification: one product, \<open>Widget\<close>, 5 in stock, no orders.
\<close>

definition widget :: product_doc where
  "widget = \<lparr>name = ''Widget'', price = 999 / 100, size' = [''small''],
             available_quantity = 5, created_at = 1, updated_at = 1\<rparr>"

definition widget_id :: object_id where
  "widget_id = ''507f1f77bcf86cd799439011''"

definition widget_db :: db where
  "widget_db = \<lparr>products = [(widget_id, widget)], orders = []\<rparr>"

text \<open>
  An order of 3 widgets, and a call during which another request takes 4 widgets
  between the insert of the order and the quantity update.
\<close>

definition order3 :: order_in where
  "order3 = \<lparr>user_id = ''u1'', product_id = widget_id, quantity = 3\<rparr>"

definition race_env :: env where
  "race_env =
     \<lparr>gen_oid = ''65a000000000000000000001'', utcnow = (\<lambda>k. 20),
      fault = (\<lambda>k. None),
      others = (\<lambda>k. if k = 2 then [QuantityUpdate widget_id (- 4) 19] else [])\<rparr>"

definition order2 :: order_in where
  "order2 = \<lparr>user_id = ''u1'', product_id = widget_id, quantity = 2\<rparr>"

text \<open>A call whose insert of the order meets a storage failure.\<close>

definition outage_env :: env where
  "outage_env =
     \<lparr>gen_oid = ''65a000000000000000000005'', utcnow = (\<lambda>k. 20),
      fault = (\<lambda>k. if k = 2 then Some ''connection reset by db-0.internal:27017'' else None),
      others = (\<lambda>k. [])\<rparr>"

text \<open>The store after the race: the other request has taken its 4 widgets.\<close>

definition raced_db :: db where
  "raced_db =
     \<lparr>products = [(widget_id, widget\<lparr>available_quantity := 1, updated_at := 19\<rparr>)],
      orders = []\<rparr>"

definition sample_ops :: "operation list" where
  "sample_ops =
     [CreateOrder race_env order3,
      UpdateQuantity None 25 widget_id 7,
      CreateOrder (quiet ''65a000000000000000000002'' 30) order3,
      CreateOrder (quiet ''65a000000000000000000003'' 40) order3,
      CreateOrder (quiet ''65a000000000000000000004'' 50) order3]"

text \<open>A product body with padded, mixed-case sizes that agree once normalised.\<close>

definition shirt :: product_in where
  "shirt = \<lparr>name = ''  Shirt '', price = 10, size' = ['' S'', ''s ''], available_quantity = 4\<rparr>"

definition shirt_in :: product_in where
  "shirt_in = \<lparr>name = ''Shirt'', price = 10, size' = [''s'', ''s''], available_quantity = 4\<rparr>"

definition shirt_db :: db where
  "shirt_db =
     \<lparr>products =
        [(''65b000000000000000000001'',
          \<lparr>name = ''Shirt'', price = 10, size' = [''s'', ''s''], available_quantity = 4,
           created_at = 5, updated_at = 6\<rparr>)],
      orders = []\<rparr>"



section \<open>The conditional quantity update\<close>

lemma update_one_unique:
  "unique_ids c \<Longrightarrow>
   update_one c oid g n t =
     (case find_one c oid of
        None \<Rightarrow> (\<lparr>matched_count = 0, modified_count = 0\<rparr>, c)
      | Some d \<Rightarrow>
          if g \<le> available_quantity d
          then (\<lparr>matched_count = 1,
                 modified_count =
                   (if d\<lparr>available_quantity := available_quantity d + n, updated_at := t\<rparr> = d
                    then 0 else 1)\<rparr>,
                AList.update oid
                  (d\<lparr>available_quantity := available_quantity d + n, updated_at := t\<rparr>) c)
          else (\<lparr>matched_count = 0, modified_count = 0\<rparr>, c))"
proof (induction c)
  case Nil
  then show ?case by (simp add: find_one_def)
next
  case (Cons p c)
  obtain i d where p: "p = (i, d)" by (cases p)
  from Cons.prems have u: "unique_ids c" and ni: "i \<notin> fst ` set c"
    by (auto simp: unique_ids_def p)
  show ?case
  proof (cases "i = oid")
    case True
    with ni have "find_one c oid = None"
      by (simp add: find_one_def map_of_eq_None_iff)
    with True Cons.IH [OF u] show ?thesis
      by (simp add: p find_one_def Let_def)
  next
    case False
    with Cons.IH [OF u] show ?thesis
      by (simp add: p find_one_def Let_def split: option.splits)
  qed
qed

lemma quantity_changes_doc:
  "q \<noteq> available_quantity d \<Longrightarrow>
   d\<lparr>available_quantity := q, updated_at := t\<rparr> \<noteq> (d :: product_doc)"
proof
  assume n: "q \<noteq> available_quantity d"
    and e: "d\<lparr>available_quantity := q, updated_at := t\<rparr> = d"
  from e have "available_quantity (d\<lparr>available_quantity := q, updated_at := t\<rparr>)
               = available_quantity d"
    by simp
  with n show False by simp
qed

lemma ObjectId_valid: "ObjectId pid = Inr oid \<Longrightarrow> is_valid pid"
  by (simp add: is_valid_def)

lemma is_valid_ObjectId: "is_valid pid \<Longrightarrow> \<exists>oid. ObjectId pid = Inr oid"
  by (cases "ObjectId pid") (simp_all add: is_valid_def)

lemma not_valid_ObjectId: "\<not> is_valid pid \<Longrightarrow> ObjectId pid = Inl (InvalidId pid)"
  by (auto simp: is_valid_def ObjectId_def split: option.splits if_splits)

lemma OrderIn_product_id:
  "OrderIn raw = Inr order \<Longrightarrow> is_valid (product_id order)"
  by (auto simp: OrderIn_def product_id_field_def validate_object_id_def
           split: sum.splits if_splits)

text \<open>
  C1. For every product id (a text that \<open>ObjectId\<close> accepts, as \<open>OrderIn\<close> has checked of
  every id that reaches the operation) and every positive amount, the decrement
  \<open>update_product_quantity pid (- amount)\<close> returns true, lowers the stored quantity of
  that product by exactly the amount and sets \<open>updated_at\<close> to the clock reading, if and
  only if the product exists and its stored quantity is at least the amount; otherwise
  (quantity too low, or no product of that id) it returns false and the store is
  unchanged.
\<close>

theorem decrement_quantity_conditional:
  "ObjectId pid = Inr oid \<and> 0 < amount \<and> unique_ids (products s) \<longrightarrow>
     update_product_quantity None t s pid (- amount) =
       (case find_one (products s) oid of
          None \<Rightarrow> (Inr False, s)
        | Some d \<Rightarrow>
            if amount \<le> available_quantity d
            then (Inr True,
                  s\<lparr>products :=
                      AList.update oid
                        (d\<lparr>available_quantity := available_quantity d - amount,
                           updated_at := t\<rparr>)
                        (products s)\<rparr>)
            else (Inr False, s))"
proof
  assume a: "ObjectId pid = Inr oid \<and> 0 < amount \<and> unique_ids (products s)"
  then have neg: "- amount < 0" "- amount \<noteq> 0" by simp_all
  show "update_product_quantity None t s pid (- amount) =
       (case find_one (products s) oid of
          None \<Rightarrow> (Inr False, s)
        | Some d \<Rightarrow>
            if amount \<le> available_quantity d
            then (Inr True,
                  s\<lparr>products :=
                      AList.update oid
                        (d\<lparr>available_quantity := available_quantity d - amount,
                           updated_at := t\<rparr>)
                        (products s)\<rparr>)
            else (Inr False, s))"
    using a neg
    by (simp add: update_product_quantity_def update_one_unique quantity_changes_doc
             split: option.splits)
qed

theorem decrement_quantity_conditional_witness:
  "ObjectId widget_id = Inr widget_id \<and> (0::int) < 3 \<and> unique_ids (products widget_db)
   \<and> update_product_quantity None 9 widget_db widget_id (- 3) =
       (Inr True,
        widget_db\<lparr>products :=
          [(widget_id, widget\<lparr>available_quantity := 2, updated_at := 9\<rparr>)]\<rparr>)
   \<and> update_product_quantity None 9 widget_db widget_id (- 6) = (Inr False, widget_db)
   \<and> ObjectId ''507F1F77BCF86CD799439012'' = Inr ''507f1f77bcf86cd799439012''
   \<and> update_product_quantity None 9 widget_db ''507F1F77BCF86CD799439012'' (- 3)
       = (Inr False, widget_db)
   \<and> ObjectId ''50 7f 1f77bcf86cd7994390'' = Inr ''507f1f77bcf86cd7994390''
   \<and> update_product_quantity None 9 widget_db ''50 7f 1f77bcf86cd7994390'' (- 3)
       = (Inr False, widget_db)"
proof -
  have v: "ObjectId widget_id = Inr widget_id" by code_simp
  have u: "unique_ids (products widget_db)" by code_simp
  have f: "find_one (products widget_db) widget_id = Some widget"
    by (simp add: find_one_def widget_db_def)
  have v2: "ObjectId ''507F1F77BCF86CD799439012'' = Inr ''507f1f77bcf86cd799439012''"
    by code_simp
  have f2: "find_one (products widget_db) ''507f1f77bcf86cd799439012'' = None"
    by code_simp
  have v3: "ObjectId ''50 7f 1f77bcf86cd7994390'' = Inr ''507f1f77bcf86cd7994390''"
    by code_simp
  have f3: "find_one (products widget_db) ''507f1f77bcf86cd7994390'' = None"
    by code_simp
  from decrement_quantity_conditional [of widget_id widget_id 3 widget_db 9] v u f
  have a: "update_product_quantity None 9 widget_db widget_id (- 3) =
       (Inr True,
        widget_db\<lparr>products :=
          [(widget_id, widget\<lparr>available_quantity := 2, updated_at := 9\<rparr>)]\<rparr>)"
    by (simp add: widget_def widget_db_def)
  from decrement_quantity_conditional [of widget_id widget_id 6 widget_db 9] v u f
  have b: "update_product_quantity None 9 widget_db widget_id (- 6) = (Inr False, widget_db)"
    by (simp add: widget_def)
  from decrement_quantity_conditional
         [of "''507F1F77BCF86CD799439012''" "''507f1f77bcf86cd799439012''" 3 widget_db 9]
       v2 u f2
  have c: "update_product_quantity None 9 widget_db ''507F1F77BCF86CD799439012'' (- 3)
           = (Inr False, widget_db)"
    by simp
  from decrement_quantity_conditional
         [of "''50 7f 1f77bcf86cd7994390''" "''507f1f77bcf86cd7994390''" 3 widget_db 9]
       v3 u f3
  have d: "update_product_quantity None 9 widget_db ''50 7f 1f77bcf86cd7994390'' (- 3)
           = (Inr False, widget_db)"
    by simp
  from v u a b v2 c v3 d show ?thesis by simp
qed

section \<open>Stock never goes negative\<close>

lemma stock_nonneg_orders [simp]: "stock_nonneg (s\<lparr>orders := c\<rparr>) = stock_nonneg s"
  by (simp add: stock_nonneg_def)

lemma update_one_nonneg:
  "0 \<le> g + n \<Longrightarrow> list_all (\<lambda>(oid, d). 0 \<le> available_quantity d) c \<Longrightarrow>
   list_all (\<lambda>(oid, d). 0 \<le> available_quantity d) (snd (update_one c oid g n t))"
  by (induction c) (auto simp: Let_def split: prod.splits)

lemma update_product_quantity_nonneg:
  assumes a: "stock_nonneg s"
  shows "stock_nonneg (snd (update_product_quantity flt t s pid n))"
proof (cases "ObjectId pid")
  case (Inl x)
  with a show ?thesis by (simp add: update_product_quantity_def)
next
  case (Inr oid)
  show ?thesis
  proof (cases flt)
    case (Some m)
    with a Inr show ?thesis by (simp add: update_product_quantity_def)
  next
    case None
    define g where "g = (if n < 0 then abs n else 0)"
    have g: "0 \<le> g + n" by (simp add: g_def)
    obtain r c where u: "update_one (products s) oid g n t = (r, c)"
      by (cases "update_one (products s) oid g n t")
    from a update_one_nonneg [OF g, of "products s" oid t] u
    have "list_all (\<lambda>(oid, d). 0 \<le> available_quantity d) c"
      by (simp add: stock_nonneg_def)
    with Inr None u show ?thesis
      by (simp add: update_product_quantity_def stock_nonneg_def g_def)
  qed
qed

lemma update_product_quantity_nonneg_eq:
  "update_product_quantity flt t s pid n = (r, s') \<Longrightarrow> stock_nonneg s \<Longrightarrow> stock_nonneg s'"
  using update_product_quantity_nonneg [of s flt t pid n] by simp

lemma ProductIn_quantity: "ProductIn raw = Inr p \<Longrightarrow> 0 \<le> available_quantity p"
  by (auto simp: ProductIn_def available_quantity_field_def split: sum.splits if_splits)

lemma create_product_nonneg:
  "0 \<le> available_quantity p \<Longrightarrow> stock_nonneg s \<Longrightarrow>
   stock_nonneg (snd (create_product flt1 flt2 oid t1 t2 s p))"
  by (auto simp: create_product_def storage_def insert_one_def stock_nonneg_def Let_def
           split: sum.splits option.splits if_splits)

lemma apply_write_nonneg: "stock_nonneg s \<Longrightarrow> stock_nonneg (apply_write w s)"
  by (cases w)
     (auto simp: update_product_quantity_nonneg create_product_nonneg ProductIn_quantity
           split: sum.splits)

lemma interleave_nonneg: "stock_nonneg s \<Longrightarrow> stock_nonneg (interleave ws s)"
  unfolding interleave_def
  by (induction ws arbitrary: s) (simp_all add: apply_write_nonneg)

lemma create_order_try_nonneg:
  "stock_nonneg s \<Longrightarrow> stock_nonneg (snd (create_order_try e s order))"
  by (auto simp: create_order_try_def Let_def interleave_nonneg
           split: sum.splits option.splits prod.splits if_splits
           dest!: update_product_quantity_nonneg_eq)

lemma snd_create_order: "snd (create_order e s order) = snd (create_order_try e s order)"
  by (simp add: create_order_def split: prod.splits sum.splits exn.splits)

lemma snd_create_order_route:
  "snd (create_order_route e s order) = snd (create_order_try e s order)"
  by (simp add: create_order_route_def snd_create_order [symmetric]
           split: prod.splits sum.splits exn.splits)

lemma snd_create_product_route:
  "snd (create_product_route f1 f2 oid t1 t2 s p) = snd (create_product f1 f2 oid t1 t2 s p)"
  by (simp add: create_product_route_def split: prod.splits sum.splits exn.splits)

lemma perform_nonneg: "stock_nonneg s \<Longrightarrow> stock_nonneg (perform x s)"
  by (cases x)
     (auto simp: snd_create_order_route snd_create_product_route create_order_try_nonneg
                 update_product_quantity_nonneg create_product_nonneg ProductIn_quantity
           split: sum.splits)

lemma run_nonneg: "stock_nonneg s \<Longrightarrow> stock_nonneg (run ops s)"
  unfolding run_def
  by (induction ops arbitrary: s) (simp_all add: perform_nonneg)


text \<open>
  C2. Starting from a store in which no product has a negative quantity, after every
  sequence of operations (product creations, quantity updates, order creations, with
  whatever other requests write in between, failed and rolled-back ones included), and
  after any further writes of requests still in flight, no product has a negative
  quantity.
\<close>

theorem stock_never_negative:
  "stock_nonneg s \<longrightarrow>
     stock_nonneg (run ops s) \<and> stock_nonneg (interleave ws (run ops s))"
  by (simp add: run_nonneg interleave_nonneg)

theorem stock_never_negative_witness:
  "stock_nonneg widget_db
   \<and> stock_nonneg (run sample_ops widget_db)
   \<and> stock_nonneg (interleave [QuantityUpdate widget_id (- 5) 60] (run sample_ops widget_db))
   \<and> map (\<lambda>(oid, d). available_quantity d) (products (run sample_ops widget_db)) = [2]
   \<and> map fst (orders (run sample_ops widget_db))
       = [''65a000000000000000000002'', ''65a000000000000000000003'']"
proof -
  have h: "stock_nonneg widget_db" by code_simp
  have v: "map (\<lambda>(oid, d). available_quantity d) (products (run sample_ops widget_db)) = [2]"
    by code_simp
  have w: "map fst (orders (run sample_ops widget_db))
       = [''65a000000000000000000002'', ''65a000000000000000000003'']"
    by code_simp
  from h v w
    stock_never_negative [of widget_db sample_ops "[QuantityUpdate widget_id (- 5) 60]"]
  show ?thesis by simp
qed

section \<open>Restocking\<close>

lemma find_one_nonneg:
  "stock_nonneg s \<Longrightarrow> find_one (products s) oid = Some d \<Longrightarrow> 0 \<le> available_quantity d"
  by (auto simp: stock_nonneg_def find_one_def list_all_iff dest!: map_of_SomeD)

text \<open>
  C10. For an existing product and a positive \<open>quantity_change\<close>, the guard of
  \<open>update_product_quantity\<close> is \<open>available_quantity \<ge> 0\<close>, which holds in every store
  the system reaches (C2), so the call returns true, adds \<open>quantity_change\<close> to the
  stored quantity and sets \<open>updated_at\<close>: the operation is also an unguarded restock.
\<close>

theorem restock_unguarded:
  "ObjectId pid = Inr oid \<and> 0 < quantity_change \<and> unique_ids (products s) \<and> stock_nonneg s
   \<and> find_one (products s) oid = Some d \<longrightarrow>
     update_product_quantity None t s pid quantity_change =
       (Inr True,
        s\<lparr>products :=
            AList.update oid
              (d\<lparr>available_quantity := available_quantity d + quantity_change,
                 updated_at := t\<rparr>)
              (products s)\<rparr>)"
proof
  assume a: "ObjectId pid = Inr oid \<and> 0 < quantity_change \<and> unique_ids (products s) \<and> stock_nonneg s
   \<and> find_one (products s) oid = Some d"
  then have oid: "ObjectId pid = Inr oid" by simp
  from a have q: "0 \<le> available_quantity d" by (blast intro: find_one_nonneg)
  from a q show "update_product_quantity None t s pid quantity_change =
       (Inr True,
        s\<lparr>products :=
            AList.update oid
              (d\<lparr>available_quantity := available_quantity d + quantity_change,
                 updated_at := t\<rparr>)
              (products s)\<rparr>)"
    by (simp add: update_product_quantity_def oid update_one_unique quantity_changes_doc)
qed

theorem restock_unguarded_witness:
  "ObjectId widget_id = Inr widget_id \<and> (0::int) < 7 \<and> unique_ids (products widget_db)
   \<and> stock_nonneg widget_db \<and> find_one (products widget_db) widget_id = Some widget
   \<and> update_product_quantity None 9 widget_db widget_id 7 =
       (Inr True,
        widget_db\<lparr>products :=
          [(widget_id, widget\<lparr>available_quantity := 12, updated_at := 9\<rparr>)]\<rparr>)"
proof -
  have v: "ObjectId widget_id = Inr widget_id" by code_simp
  have u: "unique_ids (products widget_db)" by code_simp
  have n: "stock_nonneg widget_db" by code_simp
  have f: "find_one (products widget_db) widget_id = Some widget"
    by (simp add: find_one_def widget_db_def)
  from restock_unguarded [of widget_id widget_id 7 widget_db widget 9] v u n f
  have "update_product_quantity None 9 widget_db widget_id 7 =
       (Inr True,
        widget_db\<lparr>products :=
          [(widget_id, widget\<lparr>available_quantity := 12, updated_at := 9\<rparr>)]\<rparr>)"
    by (simp add: widget_def widget_db_def)
  with v u n f show ?thesis by simp
qed

section \<open>The order workflow\<close>

lemma get_product_by_id_None:
  "get_product_by_id None s pid =
     Inr (case ObjectId pid of Inr oid \<Rightarrow> find_one (products s) oid | Inl _ \<Rightarrow> None)"
  by (simp add: get_product_by_id_def is_valid_def storage_def split: sum.splits)

lemma update_product_quantity_found:
  assumes "ObjectId pid = Inr oid" and "unique_ids (products s)"
    and "find_one (products s) oid = Some d"
    and "n \<noteq> 0" and "(if n < 0 then abs n else 0) \<le> available_quantity d"
  shows "update_product_quantity None t s pid n =
     (Inr True,
      s\<lparr>products :=
          AList.update oid
            (d\<lparr>available_quantity := available_quantity d + n, updated_at := t\<rparr>)
            (products s)\<rparr>)"
proof -
  from assms(4) have "available_quantity d + n \<noteq> available_quantity d" by simp
  then have ch: "d\<lparr>available_quantity := available_quantity d + n, updated_at := t\<rparr> \<noteq> d"
    by (rule quantity_changes_doc)
  from assms(1,2,3,5) ch show ?thesis
    by (simp add: update_product_quantity_def update_one_unique)
qed

lemma find_one_append_new:
  "oid \<notin> fst ` set c \<Longrightarrow> find_one (c @ [(oid, d)]) oid = Some d"
  by (simp add: find_one_def map_of_eq_None_iff [symmetric] map_add_def)

lemma create_order_success:
  assumes v: "ObjectId (product_id order) = Inr k" and q: "0 < quantity order"
    and u: "unique_ids (products s)"
    and f: "find_one (products s) k = Some p"
    and enough: "quantity order \<le> available_quantity p"
    and fresh: "oid \<notin> fst ` set (orders s)"
  shows "create_order (quiet oid t) s order =
     (Inr (OrderOut oid \<lparr>user_id = user_id order, product_id = product_id order,
                          quantity = quantity order, order_created_at = t\<rparr>),
      s\<lparr>orders := orders s @ [(oid, \<lparr>user_id = user_id order, product_id = product_id order,
                                     quantity = quantity order, order_created_at = t\<rparr>)],
        products := AList.update k
                      (p\<lparr>available_quantity := available_quantity p - quantity order,
                         updated_at := t\<rparr>)
                      (products s)\<rparr>)"
proof -
  let ?doc = "\<lparr>user_id = user_id order, product_id = product_id order,
               quantity = quantity order, order_created_at = t\<rparr>"
  let ?s2 = "s\<lparr>orders := orders s @ [(oid, ?doc)]\<rparr>"
  have ins: "insert_one (orders s) oid ?doc = Inr (orders s @ [(oid, ?doc)])"
    using fresh by (simp add: insert_one_def)
  have upd: "update_product_quantity None t ?s2 (product_id order) (- quantity order) =
     (Inr True,
      ?s2\<lparr>products :=
          AList.update k
            (p\<lparr>available_quantity := available_quantity p + - quantity order, updated_at := t\<rparr>)
            (products ?s2)\<rparr>)"
    using v u f q enough by (intro update_product_quantity_found) simp_all
  have fnd: "find_one (orders s @ [(oid, ?doc)]) oid = Some ?doc"
    using fresh by (rule find_one_append_new)
  have tr: "create_order_try (quiet oid t) s order =
     (Inr (OrderOut oid ?doc),
      s\<lparr>orders := orders s @ [(oid, ?doc)],
        products := AList.update k
                      (p\<lparr>available_quantity := available_quantity p - quantity order,
                         updated_at := t\<rparr>)
                      (products s)\<rparr>)"
    using v f enough ins upd fnd
    by (simp add: create_order_try_def get_product_by_id_None quiet_def interleave_def
                  storage_def)
  then show ?thesis by (simp add: create_order_def)
qed


lemma find_one_append_other:
  "k \<noteq> oid \<Longrightarrow> find_one (c @ [(oid, d)]) k = find_one c k"
  by (simp add: find_one_def map_add_def split: option.splits)

lemma find_one_update_same:
  "find_one (AList.update k v c) k = Some v"
  by (simp add: find_one_def update_conv')

lemma unique_ids_update: "unique_ids c \<Longrightarrow> unique_ids (AList.update k v c)"
  by (simp add: unique_ids_def distinct_update)

text \<open>
  C6. The workflow is not idempotent. In a store where the product of a valid order has
  at least twice the ordered quantity, two successive calls with the same arguments,
  each with an id the store does not hold yet, both succeed, return two different order
  ids, both orders are stored, and the quantity of the product has gone down by twice
  the ordered quantity.
\<close>

theorem create_order_not_idempotent:
  "ObjectId (product_id order) = Inr k \<and> 0 < quantity order \<and> unique_ids (products s)
   \<and> find_one (products s) k = Some p
   \<and> 2 * quantity order \<le> available_quantity p
   \<and> oid1 \<notin> fst ` set (orders s) \<longrightarrow>
   (\<exists>out1 s1.
      create_order (quiet oid1 t1) s order = (Inr out1, s1)
      \<and> (oid2 \<notin> fst ` set (orders s1) \<longrightarrow>
          (\<exists>out2 s2.
             create_order (quiet oid2 t2) s1 order = (Inr out2, s2)
             \<and> order_out_id out1 \<noteq> order_out_id out2
             \<and> find_one (orders s2) (order_out_id out1) \<noteq> None
             \<and> find_one (orders s2) (order_out_id out2) \<noteq> None
             \<and> map_option available_quantity
                  (find_one (products s2) k)
                 = Some (available_quantity p - 2 * quantity order))))"
proof
  assume a: "ObjectId (product_id order) = Inr k \<and> 0 < quantity order \<and> unique_ids (products s)
   \<and> find_one (products s) k = Some p
   \<and> 2 * quantity order \<le> available_quantity p
   \<and> oid1 \<notin> fst ` set (orders s)"
  let ?doc1 = "\<lparr>user_id = user_id order, product_id = product_id order,
               quantity = quantity order, order_created_at = t1\<rparr>"
  let ?doc2 = "\<lparr>user_id = user_id order, product_id = product_id order,
               quantity = quantity order, order_created_at = t2\<rparr>"
  let ?p1 = "p\<lparr>available_quantity := available_quantity p - quantity order, updated_at := t1\<rparr>"
  let ?p2 = "?p1\<lparr>available_quantity := available_quantity ?p1 - quantity order, updated_at := t2\<rparr>"
  let ?s1 = "s\<lparr>orders := orders s @ [(oid1, ?doc1)],
               products := AList.update k ?p1 (products s)\<rparr>"
  let ?s2 = "?s1\<lparr>orders := orders ?s1 @ [(oid2, ?doc2)],
               products := AList.update k ?p2 (products ?s1)\<rparr>"
  from a have enough1: "quantity order \<le> available_quantity p" by simp
  from a have first: "create_order (quiet oid1 t1) s order = (Inr (OrderOut oid1 ?doc1), ?s1)"
    using enough1 by (intro create_order_success) simp_all
  have second: "\<exists>out2 s2.
             create_order (quiet oid2 t2) ?s1 order = (Inr out2, s2)
             \<and> order_out_id (OrderOut oid1 ?doc1) \<noteq> order_out_id out2
             \<and> find_one (orders s2) (order_out_id (OrderOut oid1 ?doc1)) \<noteq> None
             \<and> find_one (orders s2) (order_out_id out2) \<noteq> None
             \<and> map_option available_quantity (find_one (products s2) k)
                 = Some (available_quantity p - 2 * quantity order)"
    if fresh2: "oid2 \<notin> fst ` set (orders ?s1)"
  proof -
    from a have u1: "unique_ids (products ?s1)" by (simp add: unique_ids_update)
    have f1: "find_one (products ?s1) k = Some ?p1" by (simp add: find_one_update_same)
    from a have enough2: "quantity order \<le> available_quantity ?p1" by simp
    from a have snd_call: "create_order (quiet oid2 t2) ?s1 order = (Inr (OrderOut oid2 ?doc2), ?s2)"
      using u1 f1 enough2 fresh2 by (intro create_order_success) simp_all
    from fresh2 have ne: "oid1 \<noteq> oid2" by auto
    from a have h1: "find_one (orders s @ [(oid1, ?doc1)]) oid1 = Some ?doc1"
      by (intro find_one_append_new) simp
    from ne have "find_one ((orders s @ [(oid1, ?doc1)]) @ [(oid2, ?doc2)]) oid1
                  = find_one (orders s @ [(oid1, ?doc1)]) oid1"
      by (rule find_one_append_other)
    with h1 have o1: "find_one (orders ?s2) oid1 = Some ?doc1"
      by simp
    from find_one_append_new [OF fresh2] have o2: "find_one (orders ?s2) oid2 = Some ?doc2"
      by simp
    have q2: "map_option available_quantity (find_one (products ?s2) k)
                 = Some (available_quantity p - 2 * quantity order)"
      by (simp add: find_one_update_same)
    from snd_call ne o1 o2 q2 show ?thesis by (simp add: OrderOut_def)
  qed
  from first second show "\<exists>out1 s1.
      create_order (quiet oid1 t1) s order = (Inr out1, s1)
      \<and> (oid2 \<notin> fst ` set (orders s1) \<longrightarrow>
          (\<exists>out2 s2.
             create_order (quiet oid2 t2) s1 order = (Inr out2, s2)
             \<and> order_out_id out1 \<noteq> order_out_id out2
             \<and> find_one (orders s2) (order_out_id out1) \<noteq> None
             \<and> find_one (orders s2) (order_out_id out2) \<noteq> None
             \<and> map_option available_quantity
                  (find_one (products s2) k)
                 = Some (available_quantity p - 2 * quantity order)))"
    by blast
qed


theorem create_order_not_idempotent_witness:
  "ObjectId (product_id order2) = Inr widget_id \<and> 0 < quantity order2 \<and> unique_ids (products widget_db)
   \<and> find_one (products widget_db) widget_id = Some widget
   \<and> 2 * quantity order2 \<le> available_quantity widget
   \<and> ''65a000000000000000000002'' \<notin> fst ` set (orders widget_db)
   \<and> (\<exists>out1 s1.
        create_order (quiet ''65a000000000000000000002'' 30) widget_db order2 = (Inr out1, s1)
        \<and> (''65a000000000000000000003'' \<notin> fst ` set (orders s1) \<longrightarrow>
            (\<exists>out2 s2.
               create_order (quiet ''65a000000000000000000003'' 40) s1 order2 = (Inr out2, s2)
               \<and> order_out_id out1 \<noteq> order_out_id out2
               \<and> find_one (orders s2) (order_out_id out1) \<noteq> None
               \<and> find_one (orders s2) (order_out_id out2) \<noteq> None
               \<and> map_option available_quantity
                    (find_one (products s2) widget_id)
                   = Some (available_quantity widget - 2 * quantity order2))))
   \<and> map (\<lambda>(oid, d). available_quantity d)
        (products (snd (create_order (quiet ''65a000000000000000000003'' 40)
           (snd (create_order (quiet ''65a000000000000000000002'' 30) widget_db order2))
           order2))) = [1]"
proof -
  have h1: "ObjectId (product_id order2) = Inr widget_id" by code_simp
  have h2: "0 < quantity order2" by code_simp
  have h3: "unique_ids (products widget_db)" by code_simp
  have h4: "find_one (products widget_db) widget_id = Some widget"
    by code_simp
  have h5: "2 * quantity order2 \<le> available_quantity widget" by code_simp
  have h6: "''65a000000000000000000002'' \<notin> fst ` set (orders widget_db)"
    by (simp add: widget_db_def)
  have h7: "map (\<lambda>(oid, d). available_quantity d)
        (products (snd (create_order (quiet ''65a000000000000000000003'' 40)
           (snd (create_order (quiet ''65a000000000000000000002'' 30) widget_db order2))
           order2))) = [1]"
    by code_simp
  from h1 h2 h3 h4 h5 h6 h7
    create_order_not_idempotent [of order2 widget_id widget_db widget
      "''65a000000000000000000002''" 30 "''65a000000000000000000003''" 40]
  show ?thesis by blast
qed

text \<open>
  C4. When the lookup of the product works and finds nothing, \<open>create_order\<close> fails with
  \<open>FileNotFoundError\<close> (the route answers 404); when the product has less than the ordered
  quantity it fails with \<open>ValueError\<close>, insufficient quantity (the route answers 400). In
  both cases the call ends there and the store is the one it started from: no order is
  inserted and no product is modified.
\<close>

theorem create_order_rejects_without_writes:
  "fault e 1 = None \<longrightarrow>
     ((\<not> is_valid (product_id order)
       \<or> (\<exists>k. ObjectId (product_id order) = Inr k \<and> find_one (products s) k = None)) \<longrightarrow>
        create_order e s order =
          (Inl (FileNotFoundError (''Product with ID '' @ product_id order @ '' not found'')), s)
        \<and> create_order_route e s order =
          (HTTPException 404 (''Product with ID '' @ product_id order @ '' not found''), s))
   \<and> (ObjectId (product_id order) = Inr k
       \<and> find_one (products s) k = Some product
       \<and> available_quantity product < quantity order \<longrightarrow>
        create_order e s order =
          (Inl (ValueError (''Insufficient quantity. Available: ''
                            @ str_int (available_quantity product)
                            @ '', Requested: '' @ str_int (quantity order))), s)
        \<and> create_order_route e s order =
          (HTTPException 400 (''Insufficient quantity. Available: ''
                            @ str_int (available_quantity product)
                            @ '', Requested: '' @ str_int (quantity order)), s))"
  by (auto simp: create_order_route_def create_order_def create_order_try_def
                 get_product_by_id_None not_valid_ObjectId)

theorem create_order_rejects_without_writes_witness:
  "fault (quiet ''65a000000000000000000002'' 30) 1 = None
   \<and> ObjectId ''507f1f77bcf86cd799439012'' = Inr ''507f1f77bcf86cd799439012''
   \<and> find_one (products widget_db) ''507f1f77bcf86cd799439012'' = None
   \<and> create_order_route (quiet ''65a000000000000000000002'' 30) widget_db
        \<lparr>user_id = ''u1'', product_id = ''507f1f77bcf86cd799439012'', quantity = 1\<rparr>
       = (HTTPException 404 ''Product with ID 507f1f77bcf86cd799439012 not found'', widget_db)
   \<and> ObjectId widget_id = Inr widget_id
   \<and> find_one (products widget_db) widget_id = Some widget
   \<and> available_quantity widget < 6
   \<and> create_order_route (quiet ''65a000000000000000000002'' 30) widget_db
        \<lparr>user_id = ''u1'', product_id = widget_id, quantity = 6\<rparr>
       = (HTTPException 400 ''Insufficient quantity. Available: 5, Requested: 6'', widget_db)"
proof -
  have h0: "fault (quiet ''65a000000000000000000002'' 30) 1 = None" by (simp add: quiet_def)
  have h1: "ObjectId ''507f1f77bcf86cd799439012'' = Inr ''507f1f77bcf86cd799439012''"
    by code_simp
  have h1': "find_one (products widget_db) ''507f1f77bcf86cd799439012'' = None"
    by code_simp
  have h2: "ObjectId widget_id = Inr widget_id" by code_simp
  have h3: "find_one (products widget_db) widget_id = Some widget" by code_simp
  have h4: "available_quantity widget < 6" by code_simp
  have m2: "''Insufficient quantity. Available: '' @ str_int (available_quantity widget)
              @ '', Requested: '' @ str_int 6
            = ''Insufficient quantity. Available: 5, Requested: 6''" by code_simp
  from h0 h1 h1'
    create_order_rejects_without_writes [of "quiet ''65a000000000000000000002'' 30"
      "\<lparr>user_id = ''u1'', product_id = ''507f1f77bcf86cd799439012'', quantity = 1\<rparr>"
      widget_db widget_id widget]
  have a: "create_order_route (quiet ''65a000000000000000000002'' 30) widget_db
        \<lparr>user_id = ''u1'', product_id = ''507f1f77bcf86cd799439012'', quantity = 1\<rparr>
       = (HTTPException 404 ''Product with ID 507f1f77bcf86cd799439012 not found'', widget_db)"
    by simp
  from h0 h2 h3 h4 m2
    create_order_rejects_without_writes [of "quiet ''65a000000000000000000002'' 30"
      "\<lparr>user_id = ''u1'', product_id = widget_id, quantity = 6\<rparr>"
      widget_db widget_id widget]
  have b: "create_order_route (quiet ''65a000000000000000000002'' 30) widget_db
        \<lparr>user_id = ''u1'', product_id = widget_id, quantity = 6\<rparr>
       = (HTTPException 400 ''Insufficient quantity. Available: 5, Requested: 6'', widget_db)"
    by simp
  from h0 h1 h1' h2 h3 h4 a b show ?thesis by simp
qed

section \<open>Rollback\<close>

lemma to_list_subset: 
  "(\<And>xs. set (ordering cur xs) = set xs) \<Longrightarrow> set (to_list cur) \<subseteq> set (source cur)"
  by (auto simp: to_list_def Let_def dest!: in_set_takeD in_set_dropD)

lemma list_user_orders_ids:
  "\<exists>outs. list_user_orders None s uid pg = Inr outs
          \<and> order_out_id ` set outs \<subseteq> fst ` set (orders s)"
proof -
  let ?cur0 = "cursor_sort (\<lambda>(oid, d). order_created_at d) (- 1)
                  (coll_find (orders s) (\<lambda>(oid, d). user_id d = uid))"
  let ?cur = "case pg of None \<Rightarrow> ?cur0
              | Some p \<Rightarrow> cursor_limit (limit p) (cursor_skip (offset p) ?cur0)"
  have ord: "set (ordering ?cur xs) = set xs" for xs
    by (cases pg) (simp_all add: cursor_sort_def cursor_limit_def cursor_skip_def coll_find_def)
  have src: "source ?cur = orders s"
    by (cases pg) (simp_all add: cursor_sort_def cursor_limit_def cursor_skip_def coll_find_def)
  from to_list_subset [of ?cur] ord src have sub: "set (to_list ?cur) \<subseteq> set (orders s)"
    by simp
  have "list_user_orders None s uid pg = Inr (map (\<lambda>(oid, d). OrderOut oid d) (to_list ?cur))"
    by (simp add: list_user_orders_def storage_def Let_def)
  moreover have "order_out_id ` set (map (\<lambda>(oid, d). OrderOut oid d) (to_list ?cur))
                 \<subseteq> fst ` set (orders s)"
    using sub by (force simp: OrderOut_def)
  ultimately show ?thesis by blast
qed

lemma delete_one_absent: "oid \<notin> fst ` set (delete_one c oid)"
  by (auto simp: delete_one_def AList.delete_eq)

lemma find_one_delete_one: "find_one (delete_one c oid) oid = None"
  by (simp add: find_one_def delete_one_def delete_conv')

text \<open>
  C3, as the code has it. When the order has been inserted and the quantity update then
  returns false (another request has taken the stock in between, or the product is
  gone), and the delete goes through, \<open>create_order\<close> deletes the order it inserted, so
  that no listing of the resulting store shows it, and raises
  \<open>ValueError\<close> with the message \<open>Failed to update product quantity\<close>; the route answers
  400 with that message, not a 500.
\<close>

theorem rollback_on_lost_decrement:
  "fault e 1 = None \<and> fault e 2 = None \<and> fault e 4 = None
   \<and> get_product_by_id None s (product_id order) = Inr (Some product)
   \<and> quantity order \<le> available_quantity product
   \<and> insert_one (orders (interleave (others e 1) s)) (gen_oid e)
        \<lparr>user_id = user_id order, product_id = product_id order,
         quantity = quantity order, order_created_at = utcnow e 1\<rparr> = Inr c
   \<and> update_product_quantity (fault e 3) (utcnow e 2)
        (interleave (others e 2) ((interleave (others e 1) s)\<lparr>orders := c\<rparr>))
        (product_id order) (- quantity order) = (Inr False, s3)
   \<and> s' = (interleave (others e 3) s3)
            \<lparr>orders := delete_one (orders (interleave (others e 3) s3)) (gen_oid e)\<rparr>
   \<longrightarrow>
     create_order e s order = (Inl (ValueError ''Failed to update product quantity''), s')
     \<and> find_one (orders s') (gen_oid e) = None
     \<and> (\<forall>uid pg. \<exists>outs. list_user_orders None s' uid pg = Inr outs
                         \<and> gen_oid e \<notin> order_out_id ` set outs)
     \<and> create_order_route e s order
         = (HTTPException 400 ''Failed to update product quantity'', s')"
proof
  assume a: "fault e 1 = None \<and> fault e 2 = None \<and> fault e 4 = None
   \<and> get_product_by_id None s (product_id order) = Inr (Some product)
   \<and> quantity order \<le> available_quantity product
   \<and> insert_one (orders (interleave (others e 1) s)) (gen_oid e)
        \<lparr>user_id = user_id order, product_id = product_id order,
         quantity = quantity order, order_created_at = utcnow e 1\<rparr> = Inr c
   \<and> update_product_quantity (fault e 3) (utcnow e 2)
        (interleave (others e 2) ((interleave (others e 1) s)\<lparr>orders := c\<rparr>))
        (product_id order) (- quantity order) = (Inr False, s3)
   \<and> s' = (interleave (others e 3) s3)
            \<lparr>orders := delete_one (orders (interleave (others e 3) s3)) (gen_oid e)\<rparr>"
  then have tr: "create_order_try e s order
                 = (Inl (ValueError ''Failed to update product quantity''), s')"
    by (simp add: create_order_try_def storage_def Let_def)
  then have co: "create_order e s order
                 = (Inl (ValueError ''Failed to update product quantity''), s')"
    by (simp add: create_order_def)
  then have rt: "create_order_route e s order
         = (HTTPException 400 ''Failed to update product quantity'', s')"
    by (simp add: create_order_route_def)
  from a have os: "orders s' = delete_one (orders (interleave (others e 3) s3)) (gen_oid e)"
    by simp
  have fo: "find_one (orders s') (gen_oid e) = None"
    by (simp add: os find_one_delete_one)
  have ls: "\<exists>outs. list_user_orders None s' uid pg = Inr outs
                         \<and> gen_oid e \<notin> order_out_id ` set outs" for uid pg
  proof -
    from list_user_orders_ids [of s' uid pg] obtain outs
      where o: "list_user_orders None s' uid pg = Inr outs"
        and sub: "order_out_id ` set outs \<subseteq> fst ` set (orders s')" by blast
    from delete_one_absent [of "gen_oid e" "orders (interleave (others e 3) s3)"] os
    have "gen_oid e \<notin> fst ` set (orders s')" by simp
    with sub have "gen_oid e \<notin> order_out_id ` set outs" by blast
    with o show ?thesis by blast
  qed
  from co fo ls rt show "create_order e s order = (Inl (ValueError ''Failed to update product quantity''), s')
     \<and> find_one (orders s') (gen_oid e) = None
     \<and> (\<forall>uid pg. \<exists>outs. list_user_orders None s' uid pg = Inr outs
                         \<and> gen_oid e \<notin> order_out_id ` set outs)
     \<and> create_order_route e s order
         = (HTTPException 400 ''Failed to update product quantity'', s')"
    by blast
qed


theorem rollback_on_lost_decrement_witness:
  "fault race_env 1 = None \<and> fault race_env 2 = None \<and> fault race_env 4 = None
   \<and> get_product_by_id None widget_db (product_id order3) = Inr (Some widget)
   \<and> quantity order3 \<le> available_quantity widget
   \<and> create_order race_env widget_db order3
       = (Inl (ValueError ''Failed to update product quantity''), raced_db)
   \<and> find_one (orders raced_db) (gen_oid race_env) = None
   \<and> create_order_route race_env widget_db order3
       = (HTTPException 400 ''Failed to update product quantity'', raced_db)"
proof -
  let ?doc = "\<lparr>user_id = user_id order3, product_id = product_id order3,
               quantity = quantity order3, order_created_at = utcnow race_env 1\<rparr>"
  let ?c = "[(gen_oid race_env, ?doc)]"
  let ?s3 = "raced_db\<lparr>orders := ?c\<rparr>"
  have h1: "fault race_env 1 = None" by code_simp
  have h2: "fault race_env 2 = None" by code_simp
  have h4: "fault race_env 4 = None" by code_simp
  have h5: "get_product_by_id None widget_db (product_id order3) = Inr (Some widget)"
    by code_simp
  have h6: "quantity order3 \<le> available_quantity widget" by code_simp
  have h7: "insert_one (orders (interleave (others race_env 1) widget_db)) (gen_oid race_env)
              ?doc = Inr ?c"
    by code_simp
  have h8: "update_product_quantity (fault race_env 3) (utcnow race_env 2)
        (interleave (others race_env 2) ((interleave (others race_env 1) widget_db)\<lparr>orders := ?c\<rparr>))
        (product_id order3) (- quantity order3) = (Inr False, ?s3)"
    by code_simp
  have h9: "raced_db = (interleave (others race_env 3) ?s3)
            \<lparr>orders := delete_one (orders (interleave (others race_env 3) ?s3)) (gen_oid race_env)\<rparr>"
    by code_simp
  from h1 h2 h4 h5 h6 h7 h8 h9
    rollback_on_lost_decrement [of race_env widget_db order3 widget ?c ?s3 raced_db]
  show ?thesis by blast
qed

text \<open>
  C3 as stated fails in the race of the sample: the order is inserted, the quantity
  update returns false, and the answer is 400, not a 500-class error.
\<close>

theorem rollback_status_counterexample:
  "insert_one (orders (interleave (others race_env 1) widget_db)) (gen_oid race_env)
     \<lparr>user_id = ''u1'', product_id = widget_id, quantity = 3, order_created_at = 20\<rparr>
     = Inr [(gen_oid race_env,
             \<lparr>user_id = ''u1'', product_id = widget_id, quantity = 3, order_created_at = 20\<rparr>)]
   \<and> fst (update_product_quantity None 20
          (interleave (others race_env 2)
             (widget_db\<lparr>orders := [(gen_oid race_env,
                \<lparr>user_id = ''u1'', product_id = widget_id, quantity = 3,
                 order_created_at = 20\<rparr>)]\<rparr>))
          widget_id (- 3)) = Inr False
   \<and> fst (create_order race_env widget_db order3)
       = Inl (ValueError ''Failed to update product quantity'')
   \<and> status_code (fst (create_order_route race_env widget_db order3)) = 400
   \<and> \<not> 500 \<le> status_code (fst (create_order_route race_env widget_db order3))"
  by code_simp

section \<open>Storage failures at the route\<close>

lemma create_order_raises:
  "(\<exists>out. fst (create_order e s order) = Inr out)
   \<or> (\<exists>m. fst (create_order e s order) = Inl (ValueError m))
   \<or> (\<exists>m. fst (create_order e s order) = Inl (FileNotFoundError m))"
  by (simp add: create_order_def split: prod.splits sum.splits exn.splits)

lemma create_order_route_status:
  "status_code (fst (create_order_route e s order)) \<in> {201, 400, 404}"
  using create_order_raises [of e s order]
  by (auto simp: create_order_route_def status_code_def split: prod.splits)

lemma storage_failure_is_400:
  "create_order_try e s order = (Inl (StorageError m), s') \<Longrightarrow>
   create_order_route e s order
     = (HTTPException 400 ''Failed to create order due to system error'', s')"
  by (simp add: create_order_route_def create_order_def)

text \<open>
  C5 at a failing input: the insert of the order raises a storage exception. The
  service replaces it by \<open>ValueError\<close>, which the route answers with 400; the branch of
  the route that answers 500 is never reached from the service. The message is the
  fixed text and carries nothing of the storage exception.
\<close>

theorem storage_failure_answers_400:
  "create_order_route outage_env widget_db order3
     = (HTTPException 400 ''Failed to create order due to system error'', widget_db)"
  by code_simp

section \<open>Product validation\<close>

lemma of_char_lower_char:
  "(of_char (lower_char c) :: nat) = (if isupper c then of_char c + 32 else of_char c)"
  by (simp add: lower_char_def isupper_def Let_def)

lemma isspace_lower_char: "isspace (lower_char c) = isspace c"
  by (auto simp: isspace_def isupper_def Let_def of_char_lower_char)

lemma not_isupper_lower_char: "\<not> isupper (lower_char c)"
proof (cases "isupper c")
  case True
  then have "(of_char (lower_char c) :: nat) = of_char c + 32" by (simp add: of_char_lower_char)
  moreover from True have "97 \<le> (of_char c :: nat) + 32" by (auto simp: isupper_def Let_def)
  moreover from True have "(of_char c :: nat) + 32 \<le> 122 \<or> 224 \<le> (of_char c :: nat) + 32"
    by (auto simp: isupper_def Let_def)
  ultimately show ?thesis by (auto simp: isupper_def [of "lower_char c"] Let_def)
next
  case False
  then show ?thesis by (simp add: lower_char_def)
qed

lemma lower_char_idem: "lower_char (lower_char c) = lower_char c"
  using not_isupper_lower_char [of c] by (simp add: lower_char_def [of "lower_char c"])

lemma lower_idem: "lower (lower s) = lower s"
  by (simp add: lower_def lower_char_idem)

lemma dropWhile_lower: "dropWhile isspace (lower s) = lower (dropWhile isspace s)"
  by (simp add: lower_def dropWhile_map comp_def isspace_lower_char)

lemma strip_lower: "strip (lower s) = lower (strip s)"
proof -
  have r: "rev (lower xs) = lower (rev xs)" for xs by (simp add: lower_def rev_map)
  show ?thesis by (simp add: strip_def dropWhile_lower r)
qed

lemma strip_ends:
  "strip s \<noteq> [] \<Longrightarrow> \<not> isspace (hd (strip s)) \<and> \<not> isspace (last (strip s))"
proof -
  assume ne: "strip s \<noteq> []"
  let ?a = "dropWhile isspace s"
  let ?b = "dropWhile isspace (rev ?a)"
  from ne have b: "?b \<noteq> []" by (simp add: strip_def)
  have a: "?a \<noteq> []"
  proof
    assume e: "?a = []"
    have "?b = dropWhile isspace (rev [])" by (simp only: e)
    with b show False by simp
  qed
  from b have hb: "\<not> isspace (hd ?b)" by (rule hd_dropWhile)
  from a have ha: "\<not> isspace (hd ?a)" by (rule hd_dropWhile)
  from a ha have "last ?b = last (rev ?a)"
    by (intro dropWhile_last [of "hd ?a"]) simp_all
  with a have lb: "last ?b = hd ?a" by (simp add: last_rev)
  from b have "hd (strip s) = last ?b" and "last (strip s) = hd ?b"
    by (simp_all add: strip_def hd_rev last_rev)
  with hb ha lb show ?thesis by simp
qed

lemma strip_fixed:
  "s = [] \<or> (\<not> isspace (hd s) \<and> \<not> isspace (last s)) \<Longrightarrow> strip s = s"
proof (cases "s = []")
  case True
  then show ?thesis by (simp add: strip_def)
next
  case False
  assume "s = [] \<or> (\<not> isspace (hd s) \<and> \<not> isspace (last s))"
  with False have h: "\<not> isspace (hd s)" and l: "\<not> isspace (last s)" by simp_all
  from False h have d1: "dropWhile isspace s = s" by (simp add: dropWhile_eq_self_iff)
  from False l have d2: "dropWhile isspace (rev s) = rev s"
    by (simp add: dropWhile_eq_self_iff hd_rev)
  show ?thesis by (simp add: strip_def d1 d2)
qed

lemma strip_idem: "strip (strip s) = strip s"
  using strip_ends [of s] by (intro strip_fixed) blast

lemma validate_sizes_loop_Inr:
  "validate_sizes_loop v acc = Inr r \<Longrightarrow>
   r = acc @ map (\<lambda>z. lower (strip z)) v \<and> (\<forall>z \<in> set v. strip z \<noteq> [])"
proof (induction v arbitrary: acc)
  case Nil
  then show ?case by simp
next
  case (Cons a v)
  from Cons.prems have ne: "strip a \<noteq> []"
    and rec: "validate_sizes_loop v (acc @ [lower (strip a)]) = Inr r"
    by (simp_all add: Let_def split: if_splits)
  from Cons.IH [OF rec] ne show ?case by simp
qed

lemma validate_sizes_loop_Inl:
  "\<exists>z \<in> set v. strip z = [] \<Longrightarrow> \<exists>m. validate_sizes_loop v acc = Inl m"
  by (induction v arbitrary: acc) (auto simp: Let_def)

lemma lower_Nil_iff: "lower s = [] \<longleftrightarrow> s = []"
  by (simp add: lower_def)

lemma ProductIn_Inr:
  assumes "ProductIn raw = Inr p"
  shows "name p = strip (name raw)" and "name p \<noteq> []" and "0 < price p"
    and "size' p = map (\<lambda>z. lower (strip z)) (size' raw)" and "size' raw \<noteq> []"
    and "\<forall>z \<in> set (size' raw). strip z \<noteq> []"
    and "available_quantity p = available_quantity raw" and "price p = price raw"
  using assms
  by (auto simp: ProductIn_def name_field_def validate_name_def price_field_def
                 size_field_def validate_sizes_def available_quantity_field_def Let_def
           split: sum.splits if_splits dest!: validate_sizes_loop_Inr)


lemma ProductIn_rejects:
  "strip (name raw) = [] \<or> price raw \<le> 0 \<or> size' raw = [] \<Longrightarrow>
   \<exists>errs. ProductIn raw = Inl errs \<and> errs \<noteq> []"
proof -
  assume a: "strip (name raw) = [] \<or> price raw \<le> 0 \<or> size' raw = []"
  have n: "strip (name raw) = [] \<Longrightarrow> \<exists>m. name_field (name raw) = Inl m"
    by (simp add: name_field_def validate_name_def)
  have p: "price raw \<le> 0 \<Longrightarrow> \<exists>m. price_field (price raw) = Inl m"
    by (simp add: price_field_def)
  have z: "size' raw = [] \<Longrightarrow> \<exists>m. size_field (size' raw) = Inl m"
    by (simp add: size_field_def)
  from a n p z show ?thesis
    by (auto simp: ProductIn_def field_errors_def split: sum.splits)
qed

lemma create_product_Inr:
  "create_product None None oid t1 t2 s p = (Inr out, s') \<Longrightarrow>
   find_one (products s') oid =
     Some \<lparr>name = name p, price = price p, size' = size' p,
           available_quantity = available_quantity p, created_at = t1, updated_at = t2\<rparr>"
  by (auto simp: create_product_def storage_def insert_one_def Let_def find_one_append_new
           split: if_splits option.splits)

text \<open>
  C8, as the code has it. After a successful creation the stored \<open>size\<close> is a non-empty
  list holding, in the order received, each submitted size trimmed and lower-cased;
  every entry is non-empty, trimmed and lower-case. Equal entries are kept: nothing
  collapses duplicates. A body whose name is empty after trimming, whose price is not
  positive or whose size list is empty is rejected with a validation error.
\<close>

theorem product_sizes_normalised:
  "(ProductIn raw = Inr p \<and> create_product None None oid t1 t2 s p = (Inr out, s') \<longrightarrow>
      (\<exists>d. find_one (products s') oid = Some d
         \<and> size' d = map (\<lambda>z. lower (strip z)) (size' raw)
         \<and> size' d \<noteq> []
         \<and> (\<forall>z \<in> set (size' d). z \<noteq> [] \<and> strip z = z \<and> lower z = z)))
   \<and> (strip (name raw) = [] \<or> price raw \<le> 0 \<or> size' raw = [] \<longrightarrow>
        (\<exists>errs. ProductIn raw = Inl errs \<and> errs \<noteq> []))"
proof (intro conjI impI)
  assume a: "ProductIn raw = Inr p \<and> create_product None None oid t1 t2 s p = (Inr out, s')"
  let ?d = "\<lparr>name = name p, price = price p, size' = size' p,
           available_quantity = available_quantity p, created_at = t1, updated_at = t2\<rparr>"
  from a have "create_product None None oid t1 t2 s p = (Inr out, s')" by simp
  then have f: "find_one (products s') oid = Some ?d" by (rule create_product_Inr)
  from a have v: "ProductIn raw = Inr p" by simp
  note sz = ProductIn_Inr(4) [OF v] and ne = ProductIn_Inr(5) [OF v]
    and each = ProductIn_Inr(6) [OF v]
  have el: "z \<noteq> [] \<and> strip z = z \<and> lower z = z" if "z \<in> set (size' p)" for z
  proof -
    from that sz obtain x where x: "x \<in> set (size' raw)" and z: "z = lower (strip x)"
      by auto
    from x each have "strip x \<noteq> []" by simp
    then have "z \<noteq> []" by (simp add: z lower_Nil_iff)
    moreover have "strip z = z" by (simp add: z strip_lower strip_idem)
    moreover have "lower z = z" by (simp add: z lower_idem)
    ultimately show ?thesis by simp
  qed
  have d1: "size' ?d = map (\<lambda>z. lower (strip z)) (size' raw)" by (simp add: sz)
  have d2: "size' ?d \<noteq> []" by (simp add: sz ne)
  have d3: "\<forall>z \<in> set (size' ?d). z \<noteq> [] \<and> strip z = z \<and> lower z = z"
  proof
    fix z assume "z \<in> set (size' ?d)"
    then have "z \<in> set (size' p)" by simp
    then show "z \<noteq> [] \<and> strip z = z \<and> lower z = z" by (rule el)
  qed
  from f d1 d2 d3 show "\<exists>d. find_one (products s') oid = Some d
         \<and> size' d = map (\<lambda>z. lower (strip z)) (size' raw)
         \<and> size' d \<noteq> []
         \<and> (\<forall>z \<in> set (size' d). z \<noteq> [] \<and> strip z = z \<and> lower z = z)"
    by blast
next
  assume "strip (name raw) = [] \<or> price raw \<le> 0 \<or> size' raw = []"
  then show "\<exists>errs. ProductIn raw = Inl errs \<and> errs \<noteq> []" by (rule ProductIn_rejects)
qed


theorem product_sizes_normalised_witness:
  "ProductIn shirt = Inr shirt_in
   \<and> create_product None None ''65b000000000000000000001'' 5 6 empty_db shirt_in
       = (Inr (ProductOut ''65b000000000000000000001''
                 \<lparr>name = ''Shirt'', price = 10, size' = [''s'', ''s''],
                  available_quantity = 4, created_at = 5, updated_at = 6\<rparr>), shirt_db)
   \<and> (\<exists>d. find_one (products shirt_db) ''65b000000000000000000001'' = Some d
         \<and> size' d = map (\<lambda>z. lower (strip z)) (size' shirt)
         \<and> size' d \<noteq> []
         \<and> (\<forall>z \<in> set (size' d). z \<noteq> [] \<and> strip z = z \<and> lower z = z))
   \<and> price (shirt\<lparr>price := 0\<rparr>) \<le> 0
   \<and> (\<exists>errs. ProductIn (shirt\<lparr>price := 0\<rparr>) = Inl errs \<and> errs \<noteq> [])
   \<and> strip (name (shirt\<lparr>name := [char_of (160 :: nat), char_of (133 :: nat)]\<rparr>)) = []
   \<and> (\<exists>errs. ProductIn (shirt\<lparr>name := [char_of (160 :: nat), char_of (133 :: nat)]\<rparr>)
               = Inl errs \<and> errs \<noteq> [])
   \<and> lower (strip [char_of (160 :: nat), char_of (201 :: nat), CHR ''L''])
       = [char_of (233 :: nat), CHR ''l'']"
proof -
  have h1: "ProductIn shirt = Inr shirt_in" by code_simp
  have h2: "create_product None None ''65b000000000000000000001'' 5 6 empty_db shirt_in
       = (Inr (ProductOut ''65b000000000000000000001''
                 \<lparr>name = ''Shirt'', price = 10, size' = [''s'', ''s''],
                  available_quantity = 4, created_at = 5, updated_at = 6\<rparr>), shirt_db)"
    by code_simp
  have h3: "price (shirt\<lparr>price := 0\<rparr>) \<le> 0" by simp
  from h1 h2
    product_sizes_normalised [of shirt shirt_in "''65b000000000000000000001''" 5 6 empty_db
      "ProductOut ''65b000000000000000000001''
                 \<lparr>name = ''Shirt'', price = 10, size' = [''s'', ''s''],
                  available_quantity = 4, created_at = 5, updated_at = 6\<rparr>" shirt_db]
  have a: "\<exists>d. find_one (products shirt_db) ''65b000000000000000000001'' = Some d
         \<and> size' d = map (\<lambda>z. lower (strip z)) (size' shirt)
         \<and> size' d \<noteq> []
         \<and> (\<forall>z \<in> set (size' d). z \<noteq> [] \<and> strip z = z \<and> lower z = z)"
    by blast
  from h3
    product_sizes_normalised [of "shirt\<lparr>price := 0\<rparr>" shirt_in
      "''65b000000000000000000001''" 5 6 empty_db
      "ProductOut ''65b000000000000000000001''
                 \<lparr>name = ''Shirt'', price = 10, size' = [''s'', ''s''],
                  available_quantity = 4, created_at = 5, updated_at = 6\<rparr>" shirt_db]
  have b: "\<exists>errs. ProductIn (shirt\<lparr>price := 0\<rparr>) = Inl errs \<and> errs \<noteq> []"
    by blast
  have h4: "strip (name (shirt\<lparr>name := [char_of (160 :: nat), char_of (133 :: nat)]\<rparr>)) = []"
    by code_simp
  from h4
    product_sizes_normalised
      [of "shirt\<lparr>name := [char_of (160 :: nat), char_of (133 :: nat)]\<rparr>" shirt_in
      "''65b000000000000000000001''" 5 6 empty_db
      "ProductOut ''65b000000000000000000001''
                 \<lparr>name = ''Shirt'', price = 10, size' = [''s'', ''s''],
                  available_quantity = 4, created_at = 5, updated_at = 6\<rparr>" shirt_db]
  have c: "\<exists>errs. ProductIn (shirt\<lparr>name := [char_of (160 :: nat), char_of (133 :: nat)]\<rparr>)
               = Inl errs \<and> errs \<noteq> []"
    by blast
  have h5: "lower (strip [char_of (160 :: nat), char_of (201 :: nat), CHR ''L''])
       = [char_of (233 :: nat), CHR ''l'']"
    by code_simp
  from h1 h2 h3 a b h4 c h5 show ?thesis by blast
qed

text \<open>
  C8 as stated fails on duplicates: two submitted sizes that agree once normalised are
  both stored.
\<close>

theorem duplicate_sizes_counterexample:
  "ProductIn shirt = Inr shirt_in
   \<and> create_product None None ''65b000000000000000000001'' 5 6 empty_db shirt_in
       = (Inr (ProductOut ''65b000000000000000000001''
                 \<lparr>name = ''Shirt'', price = 10, size' = [''s'', ''s''],
                  available_quantity = 4, created_at = 5, updated_at = 6\<rparr>), shirt_db)
   \<and> map_option size' (find_one (products shirt_db) ''65b000000000000000000001'')
       = Some [''s'', ''s'']
   \<and> \<not> distinct [''s'', ''s'']"
  by code_simp

section \<open>Listing products\<close>







































end
